theory Spec2Isabelle
  imports Main "HOL-Library.Sublist" "HOL-Library.Word"
begin

section \<open>UNICBot: a shallow embedding of pproj3.py\<close>

text \<open>
  The program is a single Python module. Its functions are embedded one by one, under their
  own names. What Python leaves implicit is explicit here:
  \<^item> a raised exception is a value \<open>Inl ex\<close> of a sum type, a returned value is \<open>Inr v\<close>;
  \<^item> the things the program reaches outside itself (the HTTP endpoint, the file system, the
    process environment, the PDF library, the UTF-8 decoder) are the fields of a record
    \<open>env\<close> that every effectful function takes as its first argument;
  \<^item> the things the program changes outside itself (requests put on the wire, messages
    shown by \<open>st.error\<close>) are the fields of a record \<open>world\<close>, passed in and returned.

  A Python \<open>str\<close> is modelled by \<open>string\<close>, one \<open>char\<close> per code point, so the model covers
  the strings whose code points are below 256 (Latin-1, which contains ASCII). On that range
  \<open>str.lower\<close>, \<open>str.isspace\<close> and \<open>string.punctuation\<close> are written out below as CPython
  defines them.
\<close>

subsection \<open>Python values and exceptions\<close>

text \<open>The objects that \<open>response.json()\<close> can produce. A number is never inspected by the
  program, so one constructor stands for the numbers.\<close>

datatype py_value =
    PyNone
  | PyBool bool
  | PyNum int
  | PyStr string
  | PyList "py_value list"
  | PyDict "(string \<times> py_value) list"

text \<open>\<open>RequestException\<close> stands for \<open>requests.exceptions.RequestException\<close> and all its
  subclasses (\<open>ConnectionError\<close>, \<open>Timeout\<close>, \<open>HTTPError\<close>, \<open>JSONDecodeError\<close>, ...) and carries
  \<open>str(e)\<close>. \<open>OSError\<close> stands for the subclasses of \<open>OSError\<close> other than
  \<open>FileNotFoundError\<close> (\<open>PermissionError\<close>, \<open>IsADirectoryError\<close>, ...).\<close>

datatype py_exception =
    RequestException string
  | IndexError
  | KeyError
  | TypeError
  | AttributeError
  | FileNotFoundError
  | OSError
  | UnicodeDecodeError
  | PdfReadError

text \<open>\<open>d.get(key, dflt)\<close>, the lookup with a default: only a dictionary has the method.\<close>

fun py_get :: "py_value \<Rightarrow> string \<Rightarrow> py_value \<Rightarrow> py_exception + py_value" where
  "py_get (PyDict items) key dflt =
     Inr (case map_of items key of Some v \<Rightarrow> v | None \<Rightarrow> dflt)"
| "py_get _ key dflt = Inl AttributeError"

text \<open>\<open>x[0]\<close>: the first element of a list or of a string; an empty one raises
  \<open>IndexError\<close>; a dictionary decoded from JSON has string keys only, so the key \<open>0\<close> is
  missing; the other values are not subscriptable.\<close>

fun py_item0 :: "py_value \<Rightarrow> py_exception + py_value" where
  "py_item0 (PyList []) = Inl IndexError"
| "py_item0 (PyList (x # xs)) = Inr x"
| "py_item0 (PyStr []) = Inl IndexError"
| "py_item0 (PyStr (c # cs)) = Inr (PyStr [c])"
| "py_item0 (PyDict items) = Inl KeyError"
| "py_item0 _ = Inl TypeError"

text \<open>Sequencing of two steps, the second of which is skipped when the first raises.\<close>

definition and_then :: "py_exception + 'a \<Rightarrow> ('a \<Rightarrow> py_exception + 'b) \<Rightarrow> py_exception + 'b" where
  "and_then r f = (case r of Inl ex \<Rightarrow> Inl ex | Inr v \<Rightarrow> f v)"

subsection \<open>Strings\<close>

text \<open>\<open>string.punctuation\<close>; the double quote, the single quote, the backslash and the
  backquote are given by their codes.\<close>

definition string_punctuation :: string where
  "string_punctuation =
     ''!'' @ [CHR 0x22] @ ''#$%&'' @ [CHR 0x27] @ ''()*+,-./:;<=>?@['' @ [CHR 0x5C] @
     '']^_'' @ [CHR 0x60] @ ''{|}~''"

text \<open>\<open>str.lower\<close> on one code point below 256: \<open>A\<close>..\<open>Z\<close> and the Latin-1 capitals
  0xC0..0xDE (without the multiplication sign 0xD7) move up by 32.\<close>

definition lower_char :: "char \<Rightarrow> char" where
  "lower_char c =
     (let n = (of_char c :: nat)
      in if (65 \<le> n \<and> n \<le> 90) \<or> (192 \<le> n \<and> n \<le> 222 \<and> n \<noteq> 215)
         then char_of (n + 32) else c)"

definition str_lower :: "string \<Rightarrow> string" where
  "str_lower s = map lower_char s"

text \<open>\<open>str.isspace\<close> on one code point below 256: tab, line feed, vertical tab, form feed,
  carriage return, the separators 0x1C..0x1F, space, NEL and the no-break space.\<close>

definition isspace :: "char \<Rightarrow> bool" where
  "isspace c =
     (let n = (of_char c :: nat)
      in (9 \<le> n \<and> n \<le> 13) \<or> (28 \<le> n \<and> n \<le> 32) \<or> n = 133 \<or> n = 160)"

text \<open>\<open>s.strip()\<close> removes the whitespace at both ends.\<close>

definition str_strip :: "string \<Rightarrow> string" where
  "str_strip s = rev (dropWhile isspace (rev (dropWhile isspace s)))"

text \<open>\<open>s.split(sep)\<close> for a separator of one character: the pieces between the separators,
  empty pieces included.\<close>

fun str_split :: "string \<Rightarrow> char \<Rightarrow> string list" where
  "str_split [] sep = [[]]"
| "str_split (c # cs) sep =
     (if c = sep then [] # str_split cs sep
      else (case str_split cs sep of [] \<Rightarrow> [[c]] | piece # pieces \<Rightarrow> (c # piece) # pieces))"

text \<open>\<open>str.maketrans(x, y, z)\<close> builds the table: the characters of \<open>x\<close> go to the
  characters of \<open>y\<close> at the same position, the characters of \<open>z\<close> go to \<open>None\<close>, and \<open>z\<close>
  overrides. \<open>s.translate(table)\<close> keeps a character that is not in the table, drops one
  that goes to \<open>None\<close> and replaces the others.\<close>

definition str_maketrans :: "string \<Rightarrow> string \<Rightarrow> string \<Rightarrow> (char \<rightharpoonup> char option)" where
  "str_maketrans x y z = map_of (zip x (map Some y)) ++ map_of (map (\<lambda>c. (c, None)) z)"

definition str_translate :: "string \<Rightarrow> (char \<rightharpoonup> char option) \<Rightarrow> string" where
  "str_translate s table =
     concat (map (\<lambda>c. case table c of None \<Rightarrow> [c] | Some None \<Rightarrow> [] | Some (Some d) \<Rightarrow> [d]) s)"

text \<open>\<open>keyword in text\<close>: the search for \<open>keyword\<close> at every position of \<open>text\<close>.\<close>

fun str_contains :: "string \<Rightarrow> string \<Rightarrow> bool" where
  "str_contains text keyword =
     (prefix keyword text \<or> (case text of [] \<Rightarrow> False | c # cs \<Rightarrow> str_contains cs keyword))"

text \<open>\<open>str(n)\<close> for a natural number, in decimal.\<close>

function str_nat :: "nat \<Rightarrow> string" where
  "str_nat n =
     (if n < 10 then [char_of (48 + n)] else str_nat (n div 10) @ [char_of (48 + n mod 10)])"
  by pat_completeness auto
termination
  by (relation "measure id") auto

declare str_nat.simps [simp del]
declare str_contains.simps [simp del]

subsection \<open>The environment and the outside world\<close>

type_synonym bytes = "8 word list"

text \<open>The arguments of \<open>requests.post(url, json=..., headers=...)\<close>.\<close>

record request =
  url :: string
  json :: py_value
  headers :: "(string \<times> string) list"

text \<open>What \<open>response.json()\<close> does: it raises \<open>requests.exceptions.JSONDecodeError\<close>, a
  \<open>RequestException\<close> since requests 2.27, with the given text, or it returns the decoded
  value.\<close>

datatype json_result = JSONDecodeError string | Decoded py_value

record response =
  status_code :: nat
  reason :: string
  response_url :: string
  body :: json_result

text \<open>What \<open>requests.post\<close> does: it raises a \<open>RequestException\<close> with the given text (no
  connection, time-out, invalid URL, too many redirects, ...) or it returns a response.\<close>

datatype post_result = PostRaises string | Responds response

text \<open>What \<open>open(filename, 'r')\<close> and the iteration over the file do: \<open>open\<close> raises, or the
  file yields the given lines and then ends (\<open>None\<close>) or raises.\<close>

datatype file_result = OpenRaises py_exception | Opened "string list" "py_exception option"

text \<open>What PyPDF2 does with a document: \<open>PdfReader(file)\<close> raises or gives the pages, and
  \<open>extract_text()\<close> on a page raises or gives its text.\<close>

type_synonym pdf_page = "py_exception + string"

record env =
  os_getenv :: "string \<Rightarrow> string option"
  requests_post :: "request \<Rightarrow> post_result"
  open_file :: "string \<Rightarrow> file_result"
  pdf_reader :: "bytes \<Rightarrow> py_exception + pdf_page list"
  decode_utf8 :: "bytes \<Rightarrow> py_exception + string"

record world =
  requests_sent :: "request list"
  st_errors :: "string list"

text \<open>The file object that Streamlit hands over: \<open>uploaded_file.type\<close>,
  \<open>uploaded_file.name\<close> and the bytes that \<open>uploaded_file.read()\<close> returns.\<close>

record uploaded_file =
  file_type :: string
  file_name :: string
  file_bytes :: bytes

text \<open>\<open>response.raise_for_status()\<close> of requests: an \<open>HTTPError\<close> for the status codes 400
  to 599, nothing for the others.\<close>

definition raise_for_status :: "response \<Rightarrow> py_exception + unit" where
  "raise_for_status r =
     (if 400 \<le> status_code r \<and> status_code r < 500
      then Inl (RequestException (str_nat (status_code r) @ '' Client Error: '' @ reason r @
                                  '' for url: '' @ response_url r))
      else if 500 \<le> status_code r \<and> status_code r < 600
      then Inl (RequestException (str_nat (status_code r) @ '' Server Error: '' @ reason r @
                                  '' for url: '' @ response_url r))
      else Inr ())"

definition response_json :: "response \<Rightarrow> py_exception + py_value" where
  "response_json r =
     (case body r of JSONDecodeError msg \<Rightarrow> Inl (RequestException msg) | Decoded v \<Rightarrow> Inr v)"

subsection \<open>The program\<close>

definition OLLAMA_BASE_URL :: string where
  "OLLAMA_BASE_URL = ''http://localhost:11434/v1''"

definition MODEL_NAME :: string where
  "MODEL_NAME = ''llama3.2''"

text \<open>\<open>call_llama_api\<close>, lines 12 to 28. The \<open>try\<close> block is \<open>attempt\<close>; the \<open>except\<close> clause
  turns a \<open>RequestException\<close> into the returned text and lets every other exception pass.
  \<open>str(None)\<close> is \<open>None\<close> in the header when the variable is not set.\<close>

definition call_llama_api :: "env \<Rightarrow> string \<Rightarrow> world \<Rightarrow> (py_exception + py_value) \<times> world" where
  "call_llama_api e prompt w =
     (let hdrs = [(''Authorization'', ''Bearer '' @
                     (case os_getenv e ''OLLAMA_API_KEY'' of None \<Rightarrow> ''None'' | Some k \<Rightarrow> k)),
                  (''Content-Type'', ''application/json'')];
          data = PyDict [(''model'', PyStr MODEL_NAME),
                         (''messages'', PyList [PyDict [(''role'', PyStr ''user''),
                                                        (''content'', PyStr prompt)]])];
          req = \<lparr>url = OLLAMA_BASE_URL @ ''/chat/completions'', json = data, headers = hdrs\<rparr>;
          w' = w\<lparr>requests_sent := requests_sent w @ [req]\<rparr>;
          attempt =
            (case requests_post e req of
               PostRaises msg \<Rightarrow> Inl (RequestException msg)
             | Responds r \<Rightarrow>
                 and_then (raise_for_status r) (\<lambda>_.
                 and_then (response_json r) (\<lambda>j.
                 and_then (py_get j ''choices'' (PyList [PyDict []])) (\<lambda>choices.
                 and_then (py_item0 choices) (\<lambda>choice.
                 and_then (py_get choice ''message'' (PyDict [])) (\<lambda>message.
                 py_get message ''content'' (PyStr ''No response from model.'')))))))
      in (case attempt of
            Inl (RequestException msg) \<Rightarrow> (Inr (PyStr (''API error: '' @ msg)), w')
          | _ \<Rightarrow> (attempt, w')))"

text \<open>\<open>load_keywords\<close>, lines 31 to 39. \<open>line_keywords\<close> is the generator expression of
  line 36, \<open>read_lines\<close> the \<open>for\<close> loop around it, \<open>except_FileNotFoundError\<close> the handler
  followed by the \<open>return\<close>.\<close>

definition line_keywords :: "string \<Rightarrow> string set" where
  "line_keywords line =
     set (map (\<lambda>keyword. str_lower (str_strip keyword))
            (filter (\<lambda>keyword. str_strip keyword \<noteq> []) (str_split line (CHR '',''))))"

fun read_lines :: "string list \<Rightarrow> string set \<Rightarrow> string set" where
  "read_lines [] keywords = keywords"
| "read_lines (line # rest) keywords = read_lines rest (keywords \<union> line_keywords line)"

definition except_FileNotFoundError ::
  "py_exception \<Rightarrow> string set \<Rightarrow> string \<Rightarrow> world \<Rightarrow> (py_exception + string set) \<times> world" where
  "except_FileNotFoundError ex keywords filename w =
     (if ex = FileNotFoundError
      then (Inr keywords, w\<lparr>st_errors := st_errors w @ [''Keyword file not found: '' @ filename]\<rparr>)
      else (Inl ex, w))"

definition load_keywords :: "env \<Rightarrow> string \<Rightarrow> world \<Rightarrow> (py_exception + string set) \<times> world" where
  "load_keywords e filename w =
     (let keywords = {}
      in case open_file e filename of
           OpenRaises ex \<Rightarrow> except_FileNotFoundError ex keywords filename w
         | Opened lines None \<Rightarrow> (Inr (read_lines lines keywords), w)
         | Opened lines (Some ex) \<Rightarrow>
             except_FileNotFoundError ex (read_lines lines keywords) filename w)"

text \<open>\<open>clean_input\<close> and the matching predicates, lines 42 to 68.\<close>

definition clean_input :: "string \<Rightarrow> string" where
  "clean_input user_input =
     str_lower (str_translate user_input (str_maketrans '''' '''' string_punctuation))"

definition is_keyword_match :: "string \<Rightarrow> string set \<Rightarrow> bool" where
  "is_keyword_match user_input keywords =
     (let clean_input_text = clean_input user_input
      in \<exists>keyword \<in> keywords. str_contains clean_input_text keyword)"

definition is_greeting_query :: "string \<Rightarrow> string set \<Rightarrow> bool" where
  "is_greeting_query user_input greeting_keywords = is_keyword_match user_input greeting_keywords"

definition is_exit_query :: "string \<Rightarrow> string set \<Rightarrow> bool" where
  "is_exit_query user_input exit_keywords = is_keyword_match user_input exit_keywords"

definition is_stem_query :: "string \<Rightarrow> string set \<Rightarrow> bool" where
  "is_stem_query user_input stem_keywords = is_keyword_match user_input stem_keywords"

definition is_appointment_query :: "string \<Rightarrow> string set \<Rightarrow> bool" where
  "is_appointment_query user_input appointment_keywords =
     is_keyword_match user_input appointment_keywords"

definition is_reschedule_query :: "string \<Rightarrow> string set \<Rightarrow> bool" where
  "is_reschedule_query user_input reschedule_keywords =
     is_keyword_match user_input reschedule_keywords"

text \<open>\<open>extract_pdf_text\<close>, lines 71 to 76: the loop runs over \<open>range(len(reader.pages))\<close> and
  appends the text of page \<open>page_num\<close>; an exception ends it.\<close>

definition extract_pdf_text :: "env \<Rightarrow> uploaded_file \<Rightarrow> py_exception + string" where
  "extract_pdf_text e file =
     and_then (pdf_reader e (file_bytes file)) (\<lambda>pages.
       fold (\<lambda>page_num acc. and_then acc (\<lambda>text.
               and_then (pages ! page_num) (\<lambda>page_text. Inr (text @ page_text))))
         [0..<length pages] (Inr []))"

text \<open>\<open>generate_summary_with_model\<close> and \<open>handle_file_upload\<close>, lines 79 to 94.\<close>

definition generate_summary_with_model ::
  "env \<Rightarrow> string \<Rightarrow> world \<Rightarrow> (py_exception + py_value) \<times> world" where
  "generate_summary_with_model e content w =
     (let prompt = ''Please provide a summary for the following content:'' @
                   [CHR 0x0A, CHR 0x0A] @ content
      in call_llama_api e prompt w)"

definition handle_file_upload ::
  "env \<Rightarrow> uploaded_file \<Rightarrow> world \<Rightarrow> (py_exception + py_value) \<times> world" where
  "handle_file_upload e uploaded_file w =
     (if file_type uploaded_file = ''application/pdf''
      then (case extract_pdf_text e uploaded_file of
              Inl ex \<Rightarrow> (Inl ex, w)
            | Inr text \<Rightarrow> generate_summary_with_model e text w)
      else if file_type uploaded_file = ''text/plain''
      then (case decode_utf8 e (file_bytes uploaded_file) of
              Inl ex \<Rightarrow> (Inl ex, w)
            | Inr text \<Rightarrow> generate_summary_with_model e text w)
      else (Inr (PyStr ''Unsupported file type. Please upload a PDF or text file.''), w))"

text \<open>\<open>stem_chatbot\<close>, lines 97 to 121, with the parameters in the order of the source.\<close>

definition greeting_reply :: string where
  "greeting_reply = ''Hello! How can I assist you today?''"

definition reschedule_reply :: string where
  "reschedule_reply =
     ''To make changes to your appointment, please reach out directly by emailing or calling our team:'' @
     [CHR 0x0A, CHR 0x0A] @ ''Email: info@unicgate.org'' @ [CHR 0x0A, CHR 0x0A] @
     ''Phone: +1 346-471-4390'' @ [CHR 0x0A, CHR 0x0A] @
     ''Please note that response times may vary as our team processes requests. We appreciate your patience and will do our best to accommodate your scheduling needs.''"

definition appointment_reply :: string where
  "appointment_reply =
     ''You can check my available slots and schedule an appointment using this link: [Schedule Appointment](https://cal.com/tankyash1)''"

definition exit_reply :: string where
  "exit_reply = ''Goodbye! See you next time.''"

definition fallback_reply :: string where
  "fallback_reply =
     ''Sorry, I can only answer STEM-related questions or assist with appointment scheduling. Please ask something related to science, technology, engineering, or mathematics, or provide scheduling-related details.''"

definition stem_chatbot ::
  "env \<Rightarrow> string \<Rightarrow> string set \<Rightarrow> string set \<Rightarrow> string set \<Rightarrow> string set \<Rightarrow> string set \<Rightarrow>
   world \<Rightarrow> (py_exception + py_value) \<times> world" where
  "stem_chatbot e user_input stem_keywords greeting_keywords exit_keywords appointment_keywords
       reschedule_keywords w =
     (if is_greeting_query user_input greeting_keywords
      then (Inr (PyStr greeting_reply), w)
      else if is_reschedule_query user_input reschedule_keywords
      then (Inr (PyStr reschedule_reply), w)
      else if is_appointment_query user_input appointment_keywords
      then (Inr (PyStr appointment_reply), w)
      else if is_stem_query user_input stem_keywords
      then call_llama_api e user_input w
      else if is_exit_query user_input exit_keywords
      then (Inr (PyStr exit_reply), w)
      else (Inr (PyStr fallback_reply), w))"

subsection \<open>The specification's vocabulary\<close>

text \<open>The specification's Input Normalizer, in its own words: remove every character of
  the standard ASCII punctuation set, then lowercase the remainder. The punctuation set is
  given here by what it is, the printable ASCII characters other than the space, the digits
  and the letters, and not by the library constant.\<close>

definition is_ascii_punctuation :: "char \<Rightarrow> bool" where
  "is_ascii_punctuation c =
     (let n = (of_char c :: nat)
      in 33 \<le> n \<and> n \<le> 126 \<and> \<not> (48 \<le> n \<and> n \<le> 57) \<and> \<not> (65 \<le> n \<and> n \<le> 90) \<and>
         \<not> (97 \<le> n \<and> n \<le> 122))"

definition spec_normalize :: "string \<Rightarrow> string" where
  "spec_normalize text = str_lower (filter (\<lambda>c. \<not> is_ascii_punctuation c) text)"

definition is_ascii_upper :: "char \<Rightarrow> bool" where
  "is_ascii_upper c = (let n = (of_char c :: nat) in 65 \<le> n \<and> n \<le> 90)"

text \<open>The specification's Intent Classifier and Response Router: an ordered list of
  pairs of a predicate's outcome and an intent, of which the first that holds wins, and
  the table from intents to actions.\<close>

datatype intent = Greeting | Reschedule | Appointment | StemQuestion | Exit | Unknown

fun first_match :: "(bool \<times> intent) list \<Rightarrow> intent" where
  "first_match [] = Unknown"
| "first_match ((matches, i) # rest) = (if matches then i else first_match rest)"

definition classify ::
  "string \<Rightarrow> string set \<Rightarrow> string set \<Rightarrow> string set \<Rightarrow> string set \<Rightarrow> string set \<Rightarrow> intent" where
  "classify rawText greetingSet rescheduleSet appointmentSet stemSet exitSet =
     first_match [(is_keyword_match rawText greetingSet, Greeting),
                  (is_keyword_match rawText rescheduleSet, Reschedule),
                  (is_keyword_match rawText appointmentSet, Appointment),
                  (is_keyword_match rawText stemSet, StemQuestion),
                  (is_keyword_match rawText exitSet, Exit)]"

definition route :: "env \<Rightarrow> intent \<Rightarrow> string \<Rightarrow> world \<Rightarrow> (py_exception + py_value) \<times> world" where
  "route e i rawText w =
     (case i of
        Greeting \<Rightarrow> (Inr (PyStr greeting_reply), w)
      | Reschedule \<Rightarrow> (Inr (PyStr reschedule_reply), w)
      | Appointment \<Rightarrow> (Inr (PyStr appointment_reply), w)
      | StemQuestion \<Rightarrow> call_llama_api e rawText w
      | Exit \<Rightarrow> (Inr (PyStr exit_reply), w)
      | Unknown \<Rightarrow> (Inr (PyStr fallback_reply), w))"

subsection \<open>Concrete environments\<close>

text \<open>An environment in which nothing outside the program is there: no API key, no
  server, no file, no readable document. The others differ from it in one field.\<close>

definition nothing_there :: env where
  "nothing_there =
     \<lparr>os_getenv = (\<lambda>name. None),
      requests_post = (\<lambda>req. PostRaises ''Connection refused''),
      open_file = (\<lambda>filename. OpenRaises FileNotFoundError),
      pdf_reader = (\<lambda>data. Inl PdfReadError),
      decode_utf8 = (\<lambda>data. Inl UnicodeDecodeError)\<rparr>"

definition server_answers :: "response \<Rightarrow> env" where
  "server_answers r = nothing_there\<lparr>requests_post := (\<lambda>req. Responds r)\<rparr>"

definition file_system_gives :: "file_result \<Rightarrow> env" where
  "file_system_gives f = nothing_there\<lparr>open_file := (\<lambda>filename. f)\<rparr>"

definition pdf_has_pages :: "pdf_page list \<Rightarrow> env" where
  "pdf_has_pages pages = nothing_there\<lparr>pdf_reader := (\<lambda>data. Inr pages)\<rparr>"

definition http_response :: "nat \<Rightarrow> string \<Rightarrow> py_value \<Rightarrow> response" where
  "http_response code phrase v =
     \<lparr>status_code = code, reason = phrase,
      response_url = OLLAMA_BASE_URL @ ''/chat/completions'', body = Decoded v\<rparr>"

text \<open>The body of a chat completion whose first choice carries the given text.\<close>

definition completion :: "string \<Rightarrow> py_value" where
  "completion text =
     PyDict [(''choices'',
              PyList [PyDict [(''message'',
                               PyDict [(''role'', PyStr ''assistant''),
                                       (''content'', PyStr text)])]])]"

definition fresh_world :: world where
  "fresh_world = \<lparr>requests_sent = [], st_errors = []\<rparr>"

definition upload :: "string \<Rightarrow> uploaded_file" where
  "upload t = \<lparr>file_type = t, file_name = ''document'', file_bytes = []\<rparr>"

text \<open>A keyword file of two lines, and the body of a successful response whose list of
  choices is empty.\<close>

definition keyword_file :: file_result where
  "keyword_file = Opened ['' Hello , HI,, '' @ [CHR 0x0A], ''hey''] None"

definition empty_choices :: py_value where
  "empty_choices = PyDict [(''choices'', PyList [])]"

section \<open>Properties of the string operations\<close>

lemma punctuation_codes:
  "c \<in> set string_punctuation \<longleftrightarrow>
     (of_char c :: nat) \<in> {33..47} \<union> {58..64} \<union> {91..96} \<union> {123..126}"
proof -
  have "c \<in> set string_punctuation \<longleftrightarrow>
          (of_char c :: nat) \<in> of_char ` set string_punctuation"
    by (auto simp: inj_image_mem_iff [OF inj_of_char])
  also have "\<dots> \<longleftrightarrow> (of_char c :: nat) \<in> {33..47} \<union> {58..64} \<union> {91..96} \<union> {123..126}"
    unfolding string_punctuation_def by (simp add: atLeastAtMost_upt) blast
  finally show ?thesis .
qed

lemma punctuation_is_ascii_punctuation:
  "c \<in> set string_punctuation \<longleftrightarrow> is_ascii_punctuation c"
  unfolding punctuation_codes is_ascii_punctuation_def Let_def by auto

lemma of_char_lower_char:
  "(of_char (lower_char c) :: nat) =
     (if (65 \<le> (of_char c :: nat) \<and> (of_char c :: nat) \<le> 90) \<or>
         (192 \<le> (of_char c :: nat) \<and> (of_char c :: nat) \<le> 222 \<and> (of_char c :: nat) \<noteq> 215)
      then of_char c + 32 else of_char c)"
  by (simp add: lower_char_def Let_def)

lemma lower_char_idem: "lower_char (lower_char c) = lower_char c"
  by (rule of_char_eqI [where ?'a = nat]) (simp add: of_char_lower_char)

lemma lower_char_punctuation:
  "is_ascii_punctuation (lower_char c) \<longleftrightarrow> is_ascii_punctuation c"
  by (simp add: is_ascii_punctuation_def Let_def of_char_lower_char)

lemma lower_char_isspace: "isspace (lower_char c) \<longleftrightarrow> isspace c"
  by (simp add: isspace_def Let_def of_char_lower_char)

lemma lower_char_not_upper: "\<not> is_ascii_upper (lower_char c)"
  by (simp add: is_ascii_upper_def Let_def of_char_lower_char)

lemma isspace_not_punctuation: "isspace c \<Longrightarrow> \<not> is_ascii_punctuation c"
  by (auto simp: isspace_def is_ascii_punctuation_def Let_def)

text \<open>The table of \<open>str.maketrans('', '', z)\<close> deletes the characters of \<open>z\<close> and nothing
  else, so translating with it is a filter.\<close>

lemma maketrans_delete:
  "str_maketrans [] [] z c = (if c \<in> set z then Some None else None)"
  by (induction z) (auto simp: str_maketrans_def map_add_def split: option.splits)

lemma translate_delete:
  "str_translate s (str_maketrans [] [] z) = filter (\<lambda>c. c \<notin> set z) s"
  by (induction s) (simp_all add: str_translate_def maketrans_delete)

lemma clean_input_normalize: "clean_input s = spec_normalize s"
  by (simp add: clean_input_def spec_normalize_def translate_delete punctuation_is_ascii_punctuation)

lemma normalize_idem: "spec_normalize (spec_normalize s) = spec_normalize s"
  by (induction s)
     (simp_all add: spec_normalize_def str_lower_def lower_char_punctuation lower_char_idem)

lemma normalize_whitespace: "filter isspace (spec_normalize s) = filter isspace s"
  by (induction s)
     (auto simp: spec_normalize_def str_lower_def lower_char_isspace isspace_not_punctuation
        isspace_def lower_char_def Let_def)

text \<open>The search of \<open>in\<close> finds exactly the contiguous occurrences.\<close>

lemma str_contains_iff: "str_contains t k \<longleftrightarrow> (\<exists>ps ss. t = ps @ k @ ss)"
proof (induction t)
  case Nil
  show ?case by (simp add: str_contains.simps [of Nil])
next
  case (Cons c cs)
  show ?case
  proof
    assume "str_contains (c # cs) k"
    then consider "prefix k (c # cs)" | "str_contains cs k"
      by (auto simp: str_contains.simps [of "c # cs"])
    then show "\<exists>ps ss. c # cs = ps @ k @ ss"
    proof cases
      case 1
      then obtain ss where "c # cs = k @ ss" by (auto simp: prefix_def)
      then have "c # cs = [] @ k @ ss" by simp
      then show ?thesis by blast
    next
      case 2
      with Cons.IH obtain ps ss where "cs = ps @ k @ ss" by blast
      then have "c # cs = (c # ps) @ k @ ss" by simp
      then show ?thesis by blast
    qed
  next
    assume "\<exists>ps ss. c # cs = ps @ k @ ss"
    then obtain ps ss where eq: "c # cs = ps @ k @ ss" by blast
    show "str_contains (c # cs) k"
    proof (cases ps)
      case Nil
      with eq have "prefix k (c # cs)" by (simp add: prefix_def)
      then show ?thesis by (simp add: str_contains.simps [of "c # cs"])
    next
      case (Cons p ps')
      with eq have "cs = ps' @ k @ ss" by simp
      with Cons.IH have "str_contains cs k" by blast
      then show ?thesis by (simp add: str_contains.simps [of "c # cs"])
    qed
  qed
qed

section \<open>The input normalizer and the keyword match\<close>

text \<open>
  Claim C10. The input normalizer is idempotent: for every string \<open>s\<close>, normalizing an
  already normalized string changes nothing, \<open>clean_input (clean_input s) = clean_input s\<close>.
\<close>

theorem clean_input_idempotent: "clean_input (clean_input s) = clean_input s"
proof -
  have "clean_input (clean_input s) = spec_normalize (spec_normalize s)"
    by (simp only: clean_input_normalize)
  also have "\<dots> = spec_normalize s"
    by (rule normalize_idem)
  also have "\<dots> = clean_input s"
    by (simp only: clean_input_normalize)
  finally show ?thesis .
qed

theorem clean_input_idempotent_witness:
  "clean_input ''Hi, There!'' = ''hi there'' \<and> clean_input ''hi there'' = ''hi there''"
proof -
  have first: "clean_input ''Hi, There!'' = ''hi there''"
    by code_simp
  from clean_input_idempotent [of "''Hi, There!''"] first show ?thesis
    by simp
qed

text \<open>
  Claim C2. For every keyword set \<open>K\<close> and every string \<open>s\<close>, the keyword match predicate
  holds if and only if the normalization of \<open>s\<close> contains some member of \<open>K\<close> as a
  contiguous substring. The normalization is what \<open>clean_input\<close> computes: every standard
  ASCII punctuation character removed, the rest lowercased, and the whitespace characters
  left as they are, in number and in order.
\<close>

theorem is_keyword_match_iff_substring:
  "clean_input s = spec_normalize s \<and>
   filter isspace (spec_normalize s) = filter isspace s \<and>
   (is_keyword_match s K \<longleftrightarrow> (\<exists>k \<in> K. \<exists>ps ss. spec_normalize s = ps @ k @ ss))"
proof (intro conjI)
  show "clean_input s = spec_normalize s"
    by (rule clean_input_normalize)
  show "filter isspace (spec_normalize s) = filter isspace s"
    by (rule normalize_whitespace)
  show "is_keyword_match s K \<longleftrightarrow> (\<exists>k \<in> K. \<exists>ps ss. spec_normalize s = ps @ k @ ss)"
    by (simp add: is_keyword_match_def Let_def clean_input_normalize str_contains_iff)
qed

theorem is_keyword_match_iff_substring_witness:
  "spec_normalize ''Hi  there!'' = ''hi  there'' \<and>
   is_keyword_match ''Hi  there!'' {''hello'', ''hi''} \<and>
   \<not> is_keyword_match ''Hi  there!'' {''hello'', ''hi there''}"
proof -
  have n: "spec_normalize ''Hi  there!'' = ''hi  there''"
    by code_simp
  have "''hi  there'' = [] @ ''hi'' @ ''  there''"
    by simp
  with n have "\<exists>k \<in> {''hello'', ''hi''}. \<exists>ps ss. spec_normalize ''Hi  there!'' = ps @ k @ ss"
    by (metis insertCI)
  then have yes: "is_keyword_match ''Hi  there!'' {''hello'', ''hi''}"
    using is_keyword_match_iff_substring [of "''Hi  there!''" "{''hello'', ''hi''}"] by blast
  have no: "\<not> is_keyword_match ''Hi  there!'' {''hello'', ''hi there''}"
    by code_simp
  from n yes no show ?thesis by blast
qed

section \<open>The keyword loader\<close>

lemma last_dropWhile: "dropWhile P xs \<noteq> [] \<Longrightarrow> last (dropWhile P xs) = last xs"
proof -
  assume ne: "dropWhile P xs \<noteq> []"
  have "last xs = last (takeWhile P xs @ dropWhile P xs)" by simp
  also from ne have "\<dots> = last (dropWhile P xs)" by (rule last_appendR)
  finally show ?thesis by simp
qed

text \<open>What \<open>strip\<close> leaves, when it leaves anything, starts and ends with a character that
  is not whitespace.\<close>

lemma str_strip_ends:
  assumes "str_strip s \<noteq> []"
  shows "\<not> isspace (hd (str_strip s)) \<and> \<not> isspace (last (str_strip s))"
proof -
  define d where "d = dropWhile isspace s"
  define r where "r = dropWhile isspace (rev d)"
  have strip: "str_strip s = rev r" by (simp add: str_strip_def d_def r_def)
  with assms have r: "r \<noteq> []" by simp
  then have "rev d \<noteq> []" by (auto simp: r_def)
  then have d: "d \<noteq> []" by simp
  from r have "\<not> isspace (hd r)" unfolding r_def by (rule hd_dropWhile)
  with r have l: "\<not> isspace (last (rev r))" by (simp add: last_rev)
  from r have "last r = last (rev d)" unfolding r_def by (rule last_dropWhile)
  with d have "last r = hd d" by (simp add: last_rev)
  moreover from d have "\<not> isspace (hd d)" unfolding d_def by (rule hd_dropWhile)
  ultimately have "\<not> isspace (hd (rev r))" using r by (simp add: hd_rev)
  with l strip show ?thesis by simp
qed

lemma str_lower_ends:
  assumes "s \<noteq> []"
  shows "str_lower s \<noteq> [] \<and> hd (str_lower s) = lower_char (hd s) \<and>
         last (str_lower s) = lower_char (last s)"
  using assms by (simp add: str_lower_def hd_map last_map)

lemma line_keywords_member:
  assumes "k \<in> line_keywords line"
  shows "k \<noteq> [] \<and> \<not> isspace (hd k) \<and> \<not> isspace (last k) \<and> (\<forall>c \<in> set k. \<not> is_ascii_upper c)"
proof -
  from assms obtain p where k: "k = str_lower (str_strip p)" and ne: "str_strip p \<noteq> []"
    by (auto simp: line_keywords_def)
  from ne have ends: "\<not> isspace (hd (str_strip p)) \<and> \<not> isspace (last (str_strip p))"
    by (rule str_strip_ends)
  from ne have low: "str_lower (str_strip p) \<noteq> [] \<and>
      hd (str_lower (str_strip p)) = lower_char (hd (str_strip p)) \<and>
      last (str_lower (str_strip p)) = lower_char (last (str_strip p))"
    by (rule str_lower_ends)
  have "\<forall>c \<in> set k. \<not> is_ascii_upper c"
    by (auto simp: k str_lower_def lower_char_not_upper)
  with k ends low show ?thesis by (simp add: lower_char_isspace)
qed

lemma read_lines_member:
  "k \<in> read_lines lines acc \<Longrightarrow> k \<in> acc \<or> (\<exists>line \<in> set lines. k \<in> line_keywords line)"
  by (induction lines arbitrary: acc) auto

lemma load_keywords_from_lines:
  assumes "load_keywords e filename w = (Inr K, w')"
  shows "K = {} \<or> (\<exists>lines. K = read_lines lines {})"
  using assms
  by (auto simp: load_keywords_def except_FileNotFoundError_def Let_def
           split: file_result.splits option.splits if_splits)

lemma empty_never_matches: "\<not> is_keyword_match s {}"
  by (simp add: is_keyword_match_def)

text \<open>
  Claim C9. Every member of the set returned by the KeywordSet loader is a non-empty string
  with no leading or trailing whitespace and no uppercase ASCII letter; in particular the
  empty string is never a loaded keyword, so a loaded set cannot make every input match
  vacuously.
\<close>

theorem load_keywords_members:
  assumes "load_keywords e filename w = (Inr K, w')" and "k \<in> K"
  shows "k \<noteq> [] \<and> \<not> isspace (hd k) \<and> \<not> isspace (last k) \<and> (\<forall>c \<in> set k. \<not> is_ascii_upper c)"
proof -
  from assms(1) have "K = {} \<or> (\<exists>lines. K = read_lines lines {})"
    by (rule load_keywords_from_lines)
  with assms(2) obtain lines where "k \<in> read_lines lines {}" by auto
  then obtain line where "k \<in> line_keywords line"
    by (auto dest: read_lines_member)
  then show ?thesis by (rule line_keywords_member)
qed

theorem load_keywords_members_witness:
  "load_keywords (file_system_gives keyword_file) ''greeting_keywords.txt'' fresh_world =
     (Inr {''hello'', ''hi'', ''hey''}, fresh_world) \<and>
   ''hi'' \<noteq> [] \<and> \<not> isspace (hd ''hi'') \<and> \<not> isspace (last ''hi'') \<and>
   \<not> is_ascii_upper (CHR ''h'') \<and> \<not> is_ascii_upper (CHR ''i'')"
proof -
  have loaded: "load_keywords (file_system_gives keyword_file) ''greeting_keywords.txt'' fresh_world =
      (Inr {''hello'', ''hi'', ''hey''}, fresh_world)"
    by code_simp
  have member: "''hi'' \<in> {''hello'', ''hi'', ''hey''}"
    by simp
  from load_keywords_members [OF loaded member] loaded show ?thesis
    by simp
qed

text \<open>
  Claim C5, as amended. For every source that cannot be located, that is, for which \<open>open\<close>
  raises \<open>FileNotFoundError\<close>, the KeywordSet loader does not raise to its caller: it
  reports a non-fatal error through \<open>st.error\<close> and returns an empty KeywordSet, which no
  input matches. A source that is there and cannot be read is outside the amended claim:
  the counterexample shows the loader raising for it.
\<close>

theorem load_keywords_not_found:
  assumes "open_file e filename = OpenRaises FileNotFoundError"
  shows "load_keywords e filename w =
           (Inr {}, w\<lparr>st_errors := st_errors w @ [''Keyword file not found: '' @ filename]\<rparr>) \<and>
         \<not> is_keyword_match s {}"
  using assms
  by (simp add: load_keywords_def except_FileNotFoundError_def empty_never_matches)

theorem load_keywords_not_found_witness:
  "open_file nothing_there ''stem_keywords.txt'' = OpenRaises FileNotFoundError \<and>
   load_keywords nothing_there ''stem_keywords.txt'' fresh_world =
     (Inr {}, \<lparr>requests_sent = [], st_errors = [''Keyword file not found: stem_keywords.txt'']\<rparr>) \<and>
   \<not> is_keyword_match ''what is biology'' {}"
proof -
  have missing: "open_file nothing_there ''stem_keywords.txt'' = OpenRaises FileNotFoundError"
    by (simp add: nothing_there_def)
  from load_keywords_not_found [OF missing, of fresh_world "''what is biology''"] missing
  show ?thesis
    by (simp add: fresh_world_def)
qed

text \<open>The claim as it stands fails for a source that is located and cannot be read: \<open>open\<close>
  raises an \<open>OSError\<close> such as \<open>PermissionError\<close>, the \<open>except FileNotFoundError\<close> clause does
  not apply, and the exception reaches the caller.\<close>

theorem load_keywords_unreadable_raises:
  "open_file (file_system_gives (OpenRaises OSError)) ''stem_keywords.txt'' = OpenRaises OSError \<and>
   load_keywords (file_system_gives (OpenRaises OSError)) ''stem_keywords.txt'' fresh_world =
     (Inl OSError, fresh_world)"
  by (simp add: load_keywords_def except_FileNotFoundError_def file_system_gives_def
      nothing_there_def)

section \<open>The document extractor and the upload handler\<close>

text \<open>A loop over the indices of a list that only reads the element at the index is a
  loop over the list.\<close>

lemma fold_index:
  "fold (\<lambda>i. g (xs ! i)) [0..<length xs] a = fold g xs a"
proof (induction xs arbitrary: a rule: rev_induct)
  case Nil
  show ?case by simp
next
  case (snoc x xs)
  have "fold (\<lambda>i. g ((xs @ [x]) ! i)) [0..<length xs] a = fold (\<lambda>i. g (xs ! i)) [0..<length xs] a"
    by (rule fold_cong) (simp_all add: nth_append)
  with snoc show ?case by simp
qed

lemma fold_pages:
  "fold (\<lambda>page acc. and_then acc (\<lambda>text. and_then page (\<lambda>page_text. Inr (text @ page_text))))
     (map Inr texts) (Inr acc) = Inr (acc @ concat texts)"
  by (induction texts arbitrary: acc) (simp_all add: and_then_def)

text \<open>
  Claim C7. For every PDF document, the Document Extractor returns the concatenation of
  each page's extracted text in page order with no separator inserted between pages; in
  particular, a two-page PDF whose pages extract to "A" and "B" yields exactly "AB". The
  document is one that PyPDF2 opens and whose pages extract to the texts \<open>texts\<close>.
\<close>

theorem extract_pdf_text_concat:
  assumes "pdf_reader e (file_bytes file) = Inr (map Inr texts)"
  shows "extract_pdf_text e file = Inr (concat texts)"
proof -
  define pages :: "pdf_page list" where "pages = map Inr texts"
  define step :: "pdf_page \<Rightarrow> py_exception + string \<Rightarrow> py_exception + string"
    where "step = (\<lambda>page acc. and_then acc (\<lambda>text.
               and_then page (\<lambda>page_text. Inr (text @ page_text))))"
  have "extract_pdf_text e file =
          fold (\<lambda>page_num. step (pages ! page_num)) [0..<length pages] (Inr [])"
    using assms by (simp add: extract_pdf_text_def and_then_def pages_def step_def)
  also have "\<dots> = fold step pages (Inr [])"
    by (rule fold_index)
  also have "\<dots> = Inr ([] @ concat texts)"
    unfolding pages_def step_def by (rule fold_pages)
  finally show ?thesis by simp
qed

theorem extract_pdf_text_concat_witness:
  "pdf_reader (pdf_has_pages [Inr ''A'', Inr ''B'']) (file_bytes (upload ''application/pdf'')) =
     Inr [Inr ''A'', Inr ''B''] \<and>
   extract_pdf_text (pdf_has_pages [Inr ''A'', Inr ''B'']) (upload ''application/pdf'') = Inr ''AB''"
proof -
  have pages: "pdf_reader (pdf_has_pages [Inr ''A'', Inr ''B''])
      (file_bytes (upload ''application/pdf'')) = Inr (map Inr [''A'', ''B''])"
    by (simp add: pdf_has_pages_def nothing_there_def)
  from extract_pdf_text_concat [OF pages] pages show ?thesis
    by simp
qed

text \<open>Every call of the Model Client puts exactly one request on the wire, whose single
  message carries the prompt unchanged, and shows no error message.\<close>

lemma call_llama_api_sends_one_request:
  "\<exists>req. requests_sent (snd (call_llama_api e prompt w)) = requests_sent w @ [req] \<and>
         json req = PyDict [(''model'', PyStr MODEL_NAME),
                            (''messages'', PyList [PyDict [(''role'', PyStr ''user''),
                                                           (''content'', PyStr prompt)]])] \<and>
         st_errors (snd (call_llama_api e prompt w)) = st_errors w"
  by (simp add: call_llama_api_def Let_def split: sum.splits py_exception.splits)

text \<open>
  Claim C8. For every uploaded document whose declared media type is neither
  "application/pdf" nor "text/plain", the upload handler returns the fixed
  unsupported-file-type message and performs zero Model Client invocations: the world,
  and with it the list of requests sent, is returned as it was received.
\<close>

theorem handle_file_upload_unsupported:
  assumes "file_type f \<noteq> ''application/pdf''" and "file_type f \<noteq> ''text/plain''"
  shows "handle_file_upload e f w =
           (Inr (PyStr ''Unsupported file type. Please upload a PDF or text file.''), w) \<and>
         requests_sent (snd (handle_file_upload e f w)) = requests_sent w"
  using assms by (simp add: handle_file_upload_def)

theorem handle_file_upload_unsupported_witness:
  "file_type (upload ''image/png'') \<noteq> ''application/pdf'' \<and>
   file_type (upload ''image/png'') \<noteq> ''text/plain'' \<and>
   handle_file_upload (server_answers (http_response 200 ''OK'' (completion ''A summary.'')))
       (upload ''image/png'') fresh_world =
     (Inr (PyStr ''Unsupported file type. Please upload a PDF or text file.''), fresh_world) \<and>
   requests_sent fresh_world = []"
proof -
  have not_pdf: "file_type (upload ''image/png'') \<noteq> ''application/pdf''"
    and not_txt: "file_type (upload ''image/png'') \<noteq> ''text/plain''"
    by (simp_all add: upload_def)
  from handle_file_upload_unsupported [OF not_pdf not_txt] not_pdf not_txt show ?thesis
    by (simp add: fresh_world_def)
qed

section \<open>The Model Client\<close>

text \<open>The faults that the \<open>except\<close> clause of \<open>call_llama_api\<close> absorbs: a failure of the
  request itself, a status code from 400 to 599, and a body that is not JSON.\<close>

lemma call_llama_api_post_raises:
  assumes "\<And>req. requests_post e req = PostRaises msg"
  shows "fst (call_llama_api e prompt w) = Inr (PyStr (''API error: '' @ msg))"
  by (simp add: call_llama_api_def Let_def assms)

lemma call_llama_api_http_error:
  assumes "\<And>req. requests_post e req = Responds r"
    and "400 \<le> status_code r" and "status_code r < 600"
  shows "\<exists>msg. fst (call_llama_api e prompt w) = Inr (PyStr (''API error: '' @ msg))"
  using assms(2,3)
  by (simp add: call_llama_api_def Let_def assms(1) raise_for_status_def and_then_def)

lemma call_llama_api_bad_json:
  assumes "\<And>req. requests_post e req = Responds r" and "body r = JSONDecodeError msg"
    and "status_code r < 400"
  shows "fst (call_llama_api e prompt w) = Inr (PyStr (''API error: '' @ msg))"
  using assms(2,3)
  by (simp add: call_llama_api_def Let_def assms(1) raise_for_status_def response_json_def
      and_then_def)

text \<open>
  Claim C3. The Model Client's complete operation never throws or propagates a fault to
  its caller: on any network-level or non-2xx HTTP failure it returns a string of the form
  "API error: " followed by a description of the fault. The code breaks the first half: the
  \<open>except\<close> clause names \<open>RequestException\<close> only, so the \<open>IndexError\<close> that \<open>[0]\<close> raises
  on a successful response with an empty list of choices leaves \<open>call_llama_api\<close>, and
  leaves \<open>stem_chatbot\<close> after it.
\<close>

theorem call_llama_api_propagates_IndexError:
  "fst (call_llama_api (server_answers (http_response 200 ''OK'' empty_choices))
          ''What is DNA?'' fresh_world) = Inl IndexError \<and>
   fst (stem_chatbot (server_answers (http_response 200 ''OK'' empty_choices))
          ''What is DNA?'' {''dna''} {} {} {} {} fresh_world) = Inl IndexError"
proof (intro conjI)
  show client: "fst (call_llama_api (server_answers (http_response 200 ''OK'' empty_choices))
          ''What is DNA?'' fresh_world) = Inl IndexError"
    by (simp add: call_llama_api_def Let_def server_answers_def nothing_there_def
        http_response_def empty_choices_def raise_for_status_def response_json_def and_then_def)
  have "is_keyword_match ''What is DNA?'' {''dna''}"
    by code_simp
  then have "stem_chatbot (server_answers (http_response 200 ''OK'' empty_choices))
          ''What is DNA?'' {''dna''} {} {} {} {} fresh_world =
        call_llama_api (server_answers (http_response 200 ''OK'' empty_choices))
          ''What is DNA?'' fresh_world"
    by (simp add: stem_chatbot_def is_greeting_query_def is_reschedule_query_def
        is_appointment_query_def is_stem_query_def empty_never_matches)
  with client show "fst (stem_chatbot (server_answers (http_response 200 ''OK'' empty_choices))
          ''What is DNA?'' {''dna''} {} {} {} {} fresh_world) = Inl IndexError"
    by simp
qed

text \<open>
  Claim C4. For every successful (2xx) response body, the Model Client's extraction of the
  reply is total: if the choices/message/content shape is absent in any way (missing key,
  empty choices array, missing message or content field), it returns the fixed placeholder
  "No response from model." rather than crashing. The code gives the placeholder for the
  missing key, the missing message and the missing content, and raises \<open>IndexError\<close> for
  the empty choices array.
\<close>

theorem call_llama_api_extraction_cases:
  "fst (call_llama_api (server_answers (http_response 200 ''OK'' (PyDict [])))
          ''What is DNA?'' fresh_world) = Inr (PyStr ''No response from model.'') \<and>
   fst (call_llama_api (server_answers (http_response 200 ''OK''
            (PyDict [(''choices'', PyList [PyDict []])])))
          ''What is DNA?'' fresh_world) = Inr (PyStr ''No response from model.'') \<and>
   fst (call_llama_api (server_answers (http_response 200 ''OK''
            (PyDict [(''choices'', PyList [PyDict [(''message'', PyDict [])]])])))
          ''What is DNA?'' fresh_world) = Inr (PyStr ''No response from model.'') \<and>
   fst (call_llama_api (server_answers (http_response 200 ''OK''
            (PyDict [(''choices'', PyList [])])))
          ''What is DNA?'' fresh_world) = Inl IndexError"
  by (simp add: call_llama_api_def Let_def server_answers_def nothing_there_def
      http_response_def raise_for_status_def response_json_def and_then_def)

section \<open>The chatbot\<close>

lemma classify_cases:
  "classify s g r a st ex =
     (if is_keyword_match s g then Greeting
      else if is_keyword_match s r then Reschedule
      else if is_keyword_match s a then Appointment
      else if is_keyword_match s st then StemQuestion
      else if is_keyword_match s ex then Exit
      else Unknown)"
  by (simp add: classify_def)

text \<open>The chain of \<open>if\<close> statements of \<open>stem_chatbot\<close> is the specification's classifier
  followed by its router.\<close>

lemma stem_chatbot_route:
  "stem_chatbot e s stem greet exit appt resch w =
     route e (classify s greet resch appt stem exit) s w"
  by (simp add: stem_chatbot_def route_def classify_cases is_greeting_query_def
      is_reschedule_query_def is_appointment_query_def is_stem_query_def is_exit_query_def)

lemma replies_differ:
  "greeting_reply \<noteq> fallback_reply" "reschedule_reply \<noteq> fallback_reply"
  "appointment_reply \<noteq> fallback_reply" "exit_reply \<noteq> fallback_reply"
  by (simp_all add: greeting_reply_def reschedule_reply_def appointment_reply_def exit_reply_def
      fallback_reply_def)

text \<open>
  Claim C6. For every input classified as StemQuestion, the Router forwards the original,
  non-normalized raw input text (not the punctuation-stripped, lowercased form) to the
  Model Client and returns the Model Client's result verbatim as the response: the one
  request sent carries the raw text as the content of its message.
\<close>

theorem stem_question_forwards_raw_text:
  assumes "classify s greet resch appt stem exit = StemQuestion"
  shows "stem_chatbot e s stem greet exit appt resch w = call_llama_api e s w \<and>
     (\<exists>req. requests_sent (snd (stem_chatbot e s stem greet exit appt resch w)) =
               requests_sent w @ [req] \<and>
            json req = PyDict [(''model'', PyStr MODEL_NAME),
                               (''messages'', PyList [PyDict [(''role'', PyStr ''user''),
                                                              (''content'', PyStr s)]])])"
proof -
  have "stem_chatbot e s stem greet exit appt resch w = call_llama_api e s w"
    by (simp add: stem_chatbot_route assms route_def)
  with call_llama_api_sends_one_request [of e s w] show ?thesis by auto
qed

theorem stem_question_forwards_raw_text_witness:
  "classify ''I have a question about Biology!'' {''hello'', ''hi''} {} {} {''biology''} {} =
     StemQuestion \<and>
   clean_input ''I have a question about Biology!'' = ''i have a question about biology'' \<and>
   stem_chatbot (server_answers (http_response 200 ''OK'' (completion ''Cells.'')))
       ''I have a question about Biology!'' {''biology''} {''hello'', ''hi''} {} {} {}
       fresh_world =
     call_llama_api (server_answers (http_response 200 ''OK'' (completion ''Cells.'')))
       ''I have a question about Biology!'' fresh_world \<and>
   fst (call_llama_api (server_answers (http_response 200 ''OK'' (completion ''Cells.'')))
       ''I have a question about Biology!'' fresh_world) = Inr (PyStr ''Cells.'')"
proof -
  have stem: "classify ''I have a question about Biology!'' {''hello'', ''hi''} {} {}
      {''biology''} {} = StemQuestion"
    by code_simp
  have clean: "clean_input ''I have a question about Biology!'' =
      ''i have a question about biology''"
    by code_simp
  have reply: "fst (call_llama_api (server_answers (http_response 200 ''OK''
      (completion ''Cells.''))) ''I have a question about Biology!'' fresh_world) =
      Inr (PyStr ''Cells.'')"
    by (simp add: call_llama_api_def Let_def server_answers_def nothing_there_def
        http_response_def completion_def raise_for_status_def response_json_def and_then_def)
  from stem_question_forwards_raw_text [OF stem] stem clean reply show ?thesis
    by blast
qed

text \<open>A call of the Model Client leaves a request behind, so its outcome is never a
  result together with the world as it was received.\<close>

lemma call_llama_api_changes_world: "call_llama_api e prompt w \<noteq> (v, w)"
proof
  assume same: "call_llama_api e prompt w = (v, w)"
  from call_llama_api_sends_one_request [of e prompt w]
  obtain req where "requests_sent (snd (call_llama_api e prompt w)) = requests_sent w @ [req]"
    by blast
  with same show False by simp
qed

text \<open>
  Claim C1. For every input string and every five keyword sets, the chatbot's response is
  determined by the first matching category in the fixed priority order Greeting,
  Reschedule, Appointment, StemQuestion, Exit: the first match wins, however many sets
  match and wherever their keywords stand, and the fixed fallback text is returned if and
  only if none of the five sets match. The response of a call is its outcome: the value
  returned together with the world the call leaves. The outcome of the fallback branch is
  the fallback text and the world as it was received, with no call of the Model Client.
\<close>

theorem stem_chatbot_priority:
  "stem_chatbot e s stem greet exit appt resch w =
     route e (classify s greet resch appt stem exit) s w \<and>
   (classify s greet resch appt stem exit = Greeting \<longleftrightarrow> is_keyword_match s greet) \<and>
   (classify s greet resch appt stem exit = Reschedule \<longleftrightarrow>
      \<not> is_keyword_match s greet \<and> is_keyword_match s resch) \<and>
   (classify s greet resch appt stem exit = Appointment \<longleftrightarrow>
      \<not> is_keyword_match s greet \<and> \<not> is_keyword_match s resch \<and> is_keyword_match s appt) \<and>
   (classify s greet resch appt stem exit = StemQuestion \<longleftrightarrow>
      \<not> is_keyword_match s greet \<and> \<not> is_keyword_match s resch \<and>
      \<not> is_keyword_match s appt \<and> is_keyword_match s stem) \<and>
   (classify s greet resch appt stem exit = Exit \<longleftrightarrow>
      \<not> is_keyword_match s greet \<and> \<not> is_keyword_match s resch \<and>
      \<not> is_keyword_match s appt \<and> \<not> is_keyword_match s stem \<and> is_keyword_match s exit) \<and>
   (classify s greet resch appt stem exit = Unknown \<longleftrightarrow>
      \<not> is_keyword_match s greet \<and> \<not> is_keyword_match s resch \<and>
      \<not> is_keyword_match s appt \<and> \<not> is_keyword_match s stem \<and> \<not> is_keyword_match s exit) \<and>
   (stem_chatbot e s stem greet exit appt resch w = (Inr (PyStr fallback_reply), w) \<longleftrightarrow>
      \<not> is_keyword_match s greet \<and> \<not> is_keyword_match s resch \<and>
      \<not> is_keyword_match s appt \<and> \<not> is_keyword_match s stem \<and> \<not> is_keyword_match s exit)"
proof -
  have r: "stem_chatbot e s stem greet exit appt resch w =
      route e (classify s greet resch appt stem exit) s w"
    by (rule stem_chatbot_route)
  have c1: "classify s greet resch appt stem exit = Greeting \<longleftrightarrow> is_keyword_match s greet"
    by (simp add: classify_cases)
  have c2: "classify s greet resch appt stem exit = Reschedule \<longleftrightarrow>
      \<not> is_keyword_match s greet \<and> is_keyword_match s resch"
    by (simp add: classify_cases)
  have c3: "classify s greet resch appt stem exit = Appointment \<longleftrightarrow>
      \<not> is_keyword_match s greet \<and> \<not> is_keyword_match s resch \<and> is_keyword_match s appt"
    by (simp add: classify_cases)
  have c4: "classify s greet resch appt stem exit = StemQuestion \<longleftrightarrow>
      \<not> is_keyword_match s greet \<and> \<not> is_keyword_match s resch \<and>
      \<not> is_keyword_match s appt \<and> is_keyword_match s stem"
    by (simp add: classify_cases)
  have c5: "classify s greet resch appt stem exit = Exit \<longleftrightarrow>
      \<not> is_keyword_match s greet \<and> \<not> is_keyword_match s resch \<and>
      \<not> is_keyword_match s appt \<and> \<not> is_keyword_match s stem \<and> is_keyword_match s exit"
    by (simp add: classify_cases)
  have c6: "classify s greet resch appt stem exit = Unknown \<longleftrightarrow>
      \<not> is_keyword_match s greet \<and> \<not> is_keyword_match s resch \<and>
      \<not> is_keyword_match s appt \<and> \<not> is_keyword_match s stem \<and> \<not> is_keyword_match s exit"
    by (simp add: classify_cases)
  have u: "stem_chatbot e s stem greet exit appt resch w = (Inr (PyStr fallback_reply), w)"
    if "classify s greet resch appt stem exit = Unknown"
    using that by (simp add: r route_def)
  have f: "classify s greet resch appt stem exit = Unknown"
    if "stem_chatbot e s stem greet exit appt resch w = (Inr (PyStr fallback_reply), w)"
    using that unfolding r
    by (cases "classify s greet resch appt stem exit")
       (simp_all add: route_def replies_differ call_llama_api_changes_world)
  from u f c6
  have o: "stem_chatbot e s stem greet exit appt resch w = (Inr (PyStr fallback_reply), w) \<longleftrightarrow>
      \<not> is_keyword_match s greet \<and> \<not> is_keyword_match s resch \<and>
      \<not> is_keyword_match s appt \<and> \<not> is_keyword_match s stem \<and> \<not> is_keyword_match s exit"
    by blast
  from r c1 c2 c3 c4 c5 c6 o show ?thesis
    by (intro conjI)
qed

theorem stem_chatbot_priority_witness:
  "classify ''I want to reschedule my appointment'' {''hello''} {''reschedule''}
     {''appointment''} {''biology''} {''bye''} = Reschedule \<and>
   fst (stem_chatbot nothing_there ''I want to reschedule my appointment'' {''biology''}
     {''hello''} {''bye''} {''appointment''} {''reschedule''} fresh_world) =
     Inr (PyStr reschedule_reply) \<and>
   classify ''asdkjasd'' {''hello''} {''reschedule''} {''appointment''} {''biology''} {''bye''} =
     Unknown \<and>
   stem_chatbot nothing_there ''asdkjasd'' {''biology''} {''hello''} {''bye''} {''appointment''}
     {''reschedule''} fresh_world = (Inr (PyStr fallback_reply), fresh_world)"
proof -
  have resch: "classify ''I want to reschedule my appointment'' {''hello''} {''reschedule''}
     {''appointment''} {''biology''} {''bye''} = Reschedule"
    by code_simp
  have unknown: "classify ''asdkjasd'' {''hello''} {''reschedule''} {''appointment''}
     {''biology''} {''bye''} = Unknown"
    by code_simp
  have first: "fst (stem_chatbot nothing_there ''I want to reschedule my appointment''
     {''biology''} {''hello''} {''bye''} {''appointment''} {''reschedule''} fresh_world) =
     Inr (PyStr reschedule_reply)"
    using stem_chatbot_priority [of nothing_there "''I want to reschedule my appointment''"
        "{''biology''}" "{''hello''}" "{''bye''}" "{''appointment''}" "{''reschedule''}"
        fresh_world] resch
    by (simp add: route_def)
  have last: "stem_chatbot nothing_there ''asdkjasd'' {''biology''} {''hello''} {''bye''}
     {''appointment''} {''reschedule''} fresh_world = (Inr (PyStr fallback_reply), fresh_world)"
    using stem_chatbot_priority [of nothing_there "''asdkjasd''"
        "{''biology''}" "{''hello''}" "{''bye''}" "{''appointment''}" "{''reschedule''}"
        fresh_world] unknown
    by blast
  from resch first unknown last show ?thesis
    by (intro conjI)
qed

end
